theory Spec2Isabelle
  imports Complex_Main
begin

section \<open>The financial engine: yield, withholding taxes and wealth projection\<close>

text \<open>
  A shallow embedding of the financial engine (\<^verbatim>\<open>financial-engine.ts\<close>): the rate
  conversions of \<^verbatim>\<open>CDIService\<close>, the day counts of \<^verbatim>\<open>BusinessDaysCalculator\<close>, the two
  regressive tables of \<^verbatim>\<open>TaxCalculator\<close>, \<^verbatim>\<open>InvestmentCalculator.calculate\<close>,
  \<^verbatim>\<open>ExpenseManager.getMonthlyExpenses\<close> and \<^verbatim>\<open>FinancialEngine.projectWealth\<close>.

  Modelling decisions.
  \<^item> A JavaScript \<^verbatim>\<open>number\<close> that holds an amount or a rate is a \<^typ>\<open>real\<close>: arithmetic is
    exact, so rounding error, overflow, \<^verbatim>\<open>NaN\<close> and the infinities of IEEE doubles are
    outside the model. A \<^verbatim>\<open>number\<close> that holds a count (days, months, installments, the
    loop indices) is an \<^typ>\<open>int\<close>.
  \<^item> A \<^verbatim>\<open>Date\<close> is its time value: the milliseconds since the epoch, read in a local
    time zone with a fixed offset to UTC (no daylight saving), so that local midnight is
    a multiple of one day.
  \<^item> The clock that \<^verbatim>\<open>projectWealth\<close> reads with \<^verbatim>\<open>new Date()\<close> is an explicit argument.
  \<^item> The two rate conversions whose round trip depends on rounding are embedded a second
    time, in double arithmetic: every operation is followed by rounding to the nearest
    double.
\<close>

subsection \<open>Numbers\<close>

text \<open>
  \<^verbatim>\<open>Math.pow\<close> on the reals. A zero exponent gives 1 for every base, a positive base is
  the real power, a negative base with an integral exponent is the integer power. At the
  two remaining kinds of argument JavaScript leaves the reals (zero to a negative power is
  \<^verbatim>\<open>Infinity\<close>, a negative base to a fractional power is \<^verbatim>\<open>NaN\<close>); the model returns 0
  there and no statement below relies on that value.
\<close>

definition Math_pow :: "real \<Rightarrow> real \<Rightarrow> real" where
  "Math_pow x y =
     (if y = 0 then 1
      else if 0 < x then x powr y
      else if x = 0 then 0
      else if y = of_int \<lfloor>y\<rfloor> then x powi \<lfloor>y\<rfloor>
      else 0)"

text \<open>\<^verbatim>\<open>Math.round\<close> rounds half-way cases towards plus infinity.\<close>

definition Math_round :: "real \<Rightarrow> int" where
  "Math_round x = \<lfloor>x + 1 / 2\<rfloor>"

text \<open>
  Reading a JavaScript array: an index outside the array gives \<^verbatim>\<open>undefined\<close>.
\<close>

definition array_get :: "'a list \<Rightarrow> int \<Rightarrow> 'a option" where
  "array_get xs i = (if 0 \<le> i \<and> i < int (length xs) then Some (xs ! nat i) else None)"

subsection \<open>Dates\<close>

type_synonym Date = int

definition msPerDay :: int where
  "msPerDay = 1000 * 60 * 60 * 24"

definition Day :: "Date \<Rightarrow> int" where
  "Day t = t div msPerDay"

definition TimeWithinDay :: "Date \<Rightarrow> int" where
  "TimeWithinDay t = t mod msPerDay"

text \<open>
  The proleptic Gregorian calendar: the civil date (year, month 0..11, day of month 1..31)
  of a day number counted from 1970-01-01, and the day number of a civil date.
\<close>

definition civil_from_days :: "int \<Rightarrow> int \<times> int \<times> int" where
  "civil_from_days z =
     (let z1 = z + 719468;
          era = z1 div 146097;
          doe = z1 mod 146097;
          yoe = (doe - doe div 1460 + doe div 36524 - doe div 146096) div 365;
          doy = doe - (365 * yoe + yoe div 4 - yoe div 100);
          mp = (5 * doy + 2) div 153;
          d = doy - (153 * mp + 2) div 5 + 1;
          m = (if mp < 10 then mp + 2 else mp - 10);
          y = yoe + era * 400 + (if m \<le> 1 then 1 else 0)
      in (y, m, d))"

definition days_from_civil :: "int \<Rightarrow> int \<Rightarrow> int \<Rightarrow> int" where
  "days_from_civil y m d =
     (let y1 = y - (if m \<le> 1 then 1 else 0);
          era = y1 div 400;
          yoe = y1 mod 400;
          doy = (153 * (if m > 1 then m - 2 else m + 10) + 2) div 5 + d - 1;
          doe = yoe * 365 + yoe div 4 - yoe div 100 + doy
      in era * 146097 + doe - 719468)"

definition getFullYear :: "Date \<Rightarrow> int" where
  "getFullYear t = fst (civil_from_days (Day t))"

definition getMonth :: "Date \<Rightarrow> int" where
  "getMonth t = fst (snd (civil_from_days (Day t)))"

definition getDate :: "Date \<Rightarrow> int" where
  "getDate t = snd (snd (civil_from_days (Day t)))"

text \<open>
  \<^verbatim>\<open>MakeDay\<close> of the language standard: the month may lie outside 0..11 and carries into
  the year; the day of month is added to the first of that month, so that a day past the
  end of the month runs on into the next one.
\<close>

definition MakeDay :: "int \<Rightarrow> int \<Rightarrow> int \<Rightarrow> int" where
  "MakeDay year month date = days_from_civil (year + month div 12) (month mod 12) 1 + date - 1"

definition setMonth :: "Date \<Rightarrow> int \<Rightarrow> Date" where
  "setMonth t month = MakeDay (getFullYear t) month (getDate t) * msPerDay + TimeWithinDay t"

text \<open>\<^verbatim>\<open>setHours(0, 0, 0, 0)\<close>: local midnight of the same day.\<close>

definition setHours0 :: "Date \<Rightarrow> Date" where
  "setHours0 t = Day t * msPerDay"

subsection \<open>Data model\<close>

datatype InvestmentType = CDB | LCI | LCA | Tesouro | Caixinha | Poupanca

record Investment =
  id_inv :: string
  name :: string
  type_inv :: InvestmentType
  principal :: real
  cdiPercentage :: real
  depositDate :: Date
  maturityDate :: "Date option"
  isExemptFromIR :: bool

subsection \<open>Market constants\<close>

definition BUSINESS_DAYS_PER_YEAR :: real where
  "BUSINESS_DAYS_PER_YEAR = 252"

definition CALENDAR_DAYS_PER_YEAR :: real where
  "CALENDAR_DAYS_PER_YEAR = 365"

subsection \<open>CDIService: rate conversions\<close>

definition annualToDaily :: "real \<Rightarrow> real" where
  "annualToDaily annualRatePercent =
     (let annualRate = annualRatePercent / 100;
          dailyRate = Math_pow (1 + annualRate) (1 / BUSINESS_DAYS_PER_YEAR) - 1
      in dailyRate * 100)"


definition annualToMonthly :: "real \<Rightarrow> real" where
  "annualToMonthly annualRatePercent =
     (let annualRate = annualRatePercent / 100;
          monthlyRate = Math_pow (1 + annualRate) (1 / 12) - 1
      in monthlyRate * 100)"

subsection \<open>The rate conversions in double arithmetic\<close>






subsection \<open>BusinessDaysCalculator: day counts\<close>

definition getCalendarDays :: "Date \<Rightarrow> Date \<Rightarrow> int" where
  "getCalendarDays startDate endDate =
     (let start = setHours0 startDate;
          end = setHours0 endDate
      in max 0 ((end - start) div msPerDay))"

definition estimateBusinessDays :: "int \<Rightarrow> int" where
  "estimateBusinessDays calendarDays =
     Math_round (of_int calendarDays * (BUSINESS_DAYS_PER_YEAR / CALENDAR_DAYS_PER_YEAR))"

subsection \<open>TaxCalculator: the two regressive tables\<close>

datatype DayBound = Finite int | Infinity

record IRBracket =
  maxDays :: DayBound
  rate :: real

fun le_bound :: "int \<Rightarrow> DayBound \<Rightarrow> bool" where
  "le_bound d (Finite m) = (d \<le> m)"
| "le_bound d Infinity = True"

definition IR_TABLE :: "IRBracket list" where
  "IR_TABLE =
     [\<lparr>maxDays = Finite 180, rate = 22.5\<rparr>,
      \<lparr>maxDays = Finite 360, rate = 20.0\<rparr>,
      \<lparr>maxDays = Finite 720, rate = 17.5\<rparr>,
      \<lparr>maxDays = Infinity, rate = 15.0\<rparr>]"

definition IOF_TABLE :: "real list" where
  "IOF_TABLE =
     [96, 93, 90, 86, 83, 80, 76, 73, 70, 66,
      63, 60, 56, 53, 50, 46, 43, 40, 36, 33,
      30, 26, 23, 20, 16, 13, 10, 6, 3, 0]"

text \<open>The loop over the brackets: the first bracket that holds the day count decides.\<close>

fun getIRRate_loop :: "IRBracket list \<Rightarrow> int \<Rightarrow> real" where
  "getIRRate_loop [] calendarDays = 15.0"
| "getIRRate_loop (bracket # brackets) calendarDays =
     (if le_bound calendarDays (maxDays bracket) then rate bracket
      else getIRRate_loop brackets calendarDays)"

definition getIRRate :: "int \<Rightarrow> real" where
  "getIRRate calendarDays = getIRRate_loop IR_TABLE calendarDays"

definition getIOFRate :: "int \<Rightarrow> real" where
  "getIOFRate calendarDays =
     (if calendarDays \<le> 0 then 96
      else if calendarDays > 30 then 0
      else IOF_TABLE ! nat (calendarDays - 1))"

definition calculateIOF :: "real \<Rightarrow> int \<Rightarrow> real" where
  "calculateIOF grossReturn calendarDays =
     (if grossReturn \<le> 0 then 0
      else let rate = getIOFRate calendarDays in grossReturn * (rate / 100))"

definition calculateIR :: "real \<Rightarrow> real \<Rightarrow> int \<Rightarrow> real" where
  "calculateIR grossReturn iofAmount calendarDays =
     (let baseIR = grossReturn - iofAmount
      in if baseIR \<le> 0 then 0
         else let rate = getIRRate calendarDays in baseIR * (rate / 100))"

subsection \<open>InvestmentCalculator\<close>

text \<open>
  The four tax variables start at 0 and are assigned only for a position that is not
  exempt; the model binds them together, as the tuple
  (\<^verbatim>\<open>iofAmount\<close>, \<^verbatim>\<open>irAmount\<close>, \<^verbatim>\<open>irRate\<close>, \<^verbatim>\<open>iofRate\<close>).
\<close>

record InvestmentCalculation =
  grossValue :: real
  grossReturn :: real
  iofAmount :: real
  irAmount :: real
  netValue :: real
  netReturn :: real
  effectiveRate :: real
  daysInvested :: int
  businessDays :: int
  irRate :: real
  iofRate :: real

definition calculate :: "Investment \<Rightarrow> Date \<Rightarrow> real \<Rightarrow> InvestmentCalculation" where
  "calculate investment currentDate cdiAnnualRate =
     (let calendarDays = getCalendarDays (depositDate investment) currentDate;
          businessDays = estimateBusinessDays calendarDays;
          cdiDailyRate = annualToDaily cdiAnnualRate / 100;
          effectiveDailyRate = cdiDailyRate * (cdiPercentage investment / 100);
          grossMultiplier = Math_pow (1 + effectiveDailyRate) (of_int businessDays);
          grossValue = principal investment * grossMultiplier;
          grossReturn = grossValue - principal investment;
          taxes =
            (if \<not> isExemptFromIR investment then
               (let iofRate = getIOFRate calendarDays;
                    iofAmount = calculateIOF grossReturn calendarDays;
                    irRate = getIRRate calendarDays;
                    irAmount = calculateIR grossReturn iofAmount calendarDays
                in (iofAmount, irAmount, irRate, iofRate))
             else (0, 0, 0, 0));
          iofAmount = fst taxes;
          irAmount = fst (snd taxes);
          irRate = fst (snd (snd taxes));
          iofRate = snd (snd (snd taxes));
          netValue = grossValue - iofAmount - irAmount;
          netReturn = netValue - principal investment;
          effectiveRate =
            (if calendarDays > 0
             then (Math_pow (netValue / principal investment)
                     (CALENDAR_DAYS_PER_YEAR / of_int calendarDays) - 1) * 100
             else 0)
      in \<lparr>grossValue = grossValue,
          grossReturn = grossReturn,
          iofAmount = iofAmount,
          irAmount = irAmount,
          netValue = netValue,
          netReturn = netReturn,
          effectiveRate = effectiveRate,
          daysInvested = calendarDays,
          businessDays = businessDays,
          irRate = irRate,
          iofRate = iofRate\<rparr>)"

subsection \<open>ExpenseManager\<close>

definition getMonthsDifference :: "Date \<Rightarrow> Date \<Rightarrow> int" where
  "getMonthsDifference startDate endDate =
     (getFullYear endDate - getFullYear startDate) * 12
       + (getMonth endDate - getMonth startDate)"

record Expense =
  id_exp :: string
  description :: string
  totalAmount :: real
  installments :: int
  currentInstallment :: int
  monthlyAmount :: real
  startDate :: Date
  category :: string
  isPaid :: bool
  paymentDate :: "Date option"

text \<open>The callback of the \<^verbatim>\<open>reduce\<close>: the running total after one expense.\<close>

definition addMonthlyExpense :: "Date \<Rightarrow> real \<Rightarrow> Expense \<Rightarrow> real" where
  "addMonthlyExpense targetDate tot expense =
     (if isPaid expense then tot
      else if (case paymentDate expense of
                 Some payDate \<Rightarrow> targetDate < payDate
               | None \<Rightarrow> False) then tot
      else let monthsDiff = getMonthsDifference (startDate expense) targetDate
           in if monthsDiff \<ge> 0 \<and> monthsDiff < installments expense
              then tot + monthlyAmount expense
              else tot)"

definition getMonthlyExpenses :: "Expense list \<Rightarrow> Date \<Rightarrow> real" where
  "getMonthlyExpenses expenses targetDate = foldl (addMonthlyExpense targetDate) 0 expenses"

subsection \<open>FinancialEngine: the month-by-month projection\<close>

text \<open>
  The \<^verbatim>\<open>month\<close> label of a projection point is a localised rendering of its date; the
  model keeps what it renders, the month index and the year.
\<close>

record ProjectionResult =
  month :: "int \<times> int"
  date :: Date
  totalInvestments :: real
  totalExpenses :: real
  netWorth :: real
  monthlyReturn :: real

text \<open>The inner loop: every past contribution compounds for its remaining months.\<close>

definition accumulatedSavings :: "real \<Rightarrow> real \<Rightarrow> int \<Rightarrow> real" where
  "accumulatedSavings monthlySavings monthlyRate i =
     foldl (\<lambda>acc j. acc + monthlySavings * Math_pow (1 + monthlyRate) (of_int (i - j)))
       0 [1..i]"

text \<open>
  One turn of the outer loop at index \<open>i\<close>: from the running expense total and the
  points pushed so far to the new running total and the new point.
\<close>

definition projectWealth_body ::
  "Investment list \<Rightarrow> Expense list \<Rightarrow> real \<Rightarrow> real \<Rightarrow> Date \<Rightarrow> real \<Rightarrow> int \<Rightarrow> real \<Rightarrow>
   ProjectionResult list \<Rightarrow> real \<times> ProjectionResult" where
  "projectWealth_body investments expenses cdiAnnualRate monthlySavings now monthlyRate
     i totalAccumulatedExpenses results =
     (let targetDate = setMonth now (getMonth now + i);
          totalInvestments_i =
            foldl (\<lambda>sum inv. sum + netValue (calculate inv targetDate cdiAnnualRate))
              0 investments;
          accumulatedSavings_i = accumulatedSavings monthlySavings monthlyRate i;
          monthlyExpenses = getMonthlyExpenses expenses targetDate;
          totalAccumulatedExpenses_i = totalAccumulatedExpenses + monthlyExpenses;
          totalBruto = totalInvestments_i + accumulatedSavings_i;
          accumulatedWealth = totalBruto - totalAccumulatedExpenses_i;
          previousMonth = (if i > 0 then array_get results (i - 1) else None);
          previousTotal =
            (case previousMonth of
               Some p \<Rightarrow> totalInvestments p
             | None \<Rightarrow> foldl (\<lambda>sum inv. sum + principal inv) 0 investments);
          monthlyReturn_i =
            (if i > 0 then totalInvestments_i - previousTotal + monthlySavings * monthlyRate
             else 0)
      in (totalAccumulatedExpenses_i,
          \<lparr>month = (getMonth targetDate, getFullYear targetDate),
           date = targetDate,
           totalInvestments = accumulatedWealth,
           totalExpenses = monthlyExpenses,
           netWorth = accumulatedWealth,
           monthlyReturn = max 0 monthlyReturn_i\<rparr>))"

function projectWealth_loop ::
  "Investment list \<Rightarrow> Expense list \<Rightarrow> int \<Rightarrow> real \<Rightarrow> real \<Rightarrow> Date \<Rightarrow> real \<Rightarrow> int \<Rightarrow> real \<Rightarrow>
   ProjectionResult list \<Rightarrow> ProjectionResult list" where
  "projectWealth_loop investments expenses months cdiAnnualRate monthlySavings now
     monthlyRate i totalAccumulatedExpenses results =
     (if i \<le> months then
        (let step = projectWealth_body investments expenses cdiAnnualRate monthlySavings
                      now monthlyRate i totalAccumulatedExpenses results
         in projectWealth_loop investments expenses months cdiAnnualRate monthlySavings
              now monthlyRate (i + 1) (fst step) (results @ [snd step]))
      else results)"
  by pat_completeness auto
termination
  by (relation "measure (\<lambda>(investments, expenses, months, cdiAnnualRate, monthlySavings,
        now, monthlyRate, i, totalAccumulatedExpenses, results). nat (months + 1 - i))")
    auto

declare projectWealth_loop.simps [simp del]

definition projectWealth ::
  "Investment list \<Rightarrow> Expense list \<Rightarrow> int \<Rightarrow> real \<Rightarrow> real \<Rightarrow> Date \<Rightarrow> ProjectionResult list" where
  "projectWealth investments expenses months cdiAnnualRate monthlySavings now =
     (let monthlyRate = annualToMonthly cdiAnnualRate / 100
      in projectWealth_loop investments expenses months cdiAnnualRate monthlySavings
           now monthlyRate 0 0 [])"

subsection \<open>The projection in the words of the specification\<close>

text \<open>
  The quantities of the specification's projection, written from its words and compared
  with the loop below: the target date of month \<open>i\<close>, the value of the positions there,
  the compounded contributions, the expenses charged up to and including month \<open>i\<close>, and
  the net worth, which is the positions' value plus the contributions less the cumulative
  expenses.
\<close>

definition spec_targetDate :: "Date \<Rightarrow> int \<Rightarrow> Date" where
  "spec_targetDate today i = setMonth today (getMonth today + i)"

definition spec_positionsValue :: "Investment list \<Rightarrow> real \<Rightarrow> Date \<Rightarrow> int \<Rightarrow> real" where
  "spec_positionsValue positions referenceAnnualRate today i =
     (\<Sum>p\<leftarrow>positions. netValue (calculate p (spec_targetDate today i) referenceAnnualRate))"

definition spec_contributionValue :: "real \<Rightarrow> real \<Rightarrow> int \<Rightarrow> real" where
  "spec_contributionValue monthlyContribution monthlyRate i =
     (\<Sum>j\<leftarrow>[1..i]. monthlyContribution * Math_pow (1 + monthlyRate) (of_int (i - j)))"

definition spec_cumulativeExpenses :: "Expense list \<Rightarrow> Date \<Rightarrow> int \<Rightarrow> real" where
  "spec_cumulativeExpenses obligations today i =
     (\<Sum>k\<leftarrow>[0..i]. getMonthlyExpenses obligations (spec_targetDate today k))"

definition spec_netWorth ::
  "Investment list \<Rightarrow> Expense list \<Rightarrow> real \<Rightarrow> real \<Rightarrow> Date \<Rightarrow> int \<Rightarrow> real" where
  "spec_netWorth positions obligations referenceAnnualRate monthlyContribution today i =
     spec_positionsValue positions referenceAnnualRate today i
       + spec_contributionValue monthlyContribution (annualToMonthly referenceAnnualRate / 100) i
       - spec_cumulativeExpenses obligations today i"

text \<open>
  The point that the loop pushes at index \<open>i\<close>, in closed form. Its monthly return
  subtracts the previous point's net worth from the value of the positions alone.
\<close>

definition pointAt ::
  "Investment list \<Rightarrow> Expense list \<Rightarrow> real \<Rightarrow> real \<Rightarrow> Date \<Rightarrow> int \<Rightarrow> ProjectionResult" where
  "pointAt positions obligations referenceAnnualRate monthlyContribution today i =
     \<lparr>month = (getMonth (spec_targetDate today i), getFullYear (spec_targetDate today i)),
      date = spec_targetDate today i,
      totalInvestments =
        spec_netWorth positions obligations referenceAnnualRate monthlyContribution today i,
      totalExpenses = getMonthlyExpenses obligations (spec_targetDate today i),
      netWorth =
        spec_netWorth positions obligations referenceAnnualRate monthlyContribution today i,
      monthlyReturn =
        max 0 (if i > 0
               then spec_positionsValue positions referenceAnnualRate today i
                  - spec_netWorth positions obligations referenceAnnualRate
                      monthlyContribution today (i - 1)
                  + monthlyContribution * (annualToMonthly referenceAnnualRate / 100)
               else 0)\<rparr>"

subsection \<open>Example inputs\<close>

text \<open>
  A taxed and an exempt position, both deposited at local midnight of 2023-01-01; they
  are the concrete inputs of the instances below.
\<close>

definition example_CDB :: Investment where
  "example_CDB =
     \<lparr>id_inv = ''cdb-1'', name = ''CDB'', type_inv = CDB, principal = 10000,
      cdiPercentage = 100, depositDate = 1672531200000, maturityDate = None,
      isExemptFromIR = False\<rparr>"

definition example_LCI :: Investment where
  "example_LCI =
     \<lparr>id_inv = ''lci-1'', name = ''LCI'', type_inv = LCI, principal = 5000,
      cdiPercentage = 90, depositDate = 1672531200000, maturityDate = None,
      isExemptFromIR = True\<rparr>"

definition example_Expense :: Expense where
  "example_Expense =
     \<lparr>id_exp = ''e-1'', description = ''notebook'', totalAmount = 1200, installments = 12,
      currentInstallment = 1, monthlyAmount = 100, startDate = 1705276800000,
      category = ''other'', isPaid = False, paymentDate = None\<rparr>"

section \<open>Properties\<close>

subsection \<open>Powers and tables\<close>

lemma Math_pow_zero_exponent: "Math_pow x 0 = 1"
  by (simp add: Math_pow_def)

lemma Math_pow_pos: "0 < x \<Longrightarrow> y \<noteq> 0 \<Longrightarrow> Math_pow x y = x powr y"
  by (simp add: Math_pow_def)


lemma IOF_TABLE_length: "length IOF_TABLE = 30"
  by (simp add: IOF_TABLE_def)

lemma IOF_TABLE_decreasing: "sorted_wrt (\<lambda>a b. b < a) IOF_TABLE"
  by (simp add: IOF_TABLE_def)

lemma IOF_TABLE_range: "\<forall>x \<in> set IOF_TABLE. 0 \<le> x \<and> x \<le> 96"
  by (simp add: IOF_TABLE_def)

lemma getIOFRate_range: "0 \<le> getIOFRate d \<and> getIOFRate d \<le> 96"
proof -
  consider "d \<le> 0" | "30 < d" | "0 < d" "d \<le> 30" by linarith
  then show ?thesis
  proof cases
    case 3
    then have "nat (d - 1) < length IOF_TABLE" by (simp add: IOF_TABLE_length)
    then have "IOF_TABLE ! nat (d - 1) \<in> set IOF_TABLE" by (rule nth_mem)
    with IOF_TABLE_range 3 show ?thesis by (simp add: getIOFRate_def)
  qed (simp_all add: getIOFRate_def)
qed

lemma getIRRate_cases:
  "getIRRate d =
     (if d \<le> 180 then 22.5 else if d \<le> 360 then 20 else if d \<le> 720 then 17.5 else 15)"
  by (simp add: getIRRate_def IR_TABLE_def)

lemma getIRRate_range: "0 \<le> getIRRate d \<and> getIRRate d \<le> 22.5"
  by (simp add: getIRRate_cases)

subsection \<open>Day counts and the yield of one year\<close>

lemma getCalendarDays_Day:
  "getCalendarDays s e = max 0 (Day e - Day s)"
proof -
  have "(Day e * msPerDay - Day s * msPerDay) div msPerDay
          = Day e - Day s"
  proof -
    have "Day e * msPerDay - Day s * msPerDay = (Day e - Day s) * msPerDay"
      by (simp only: left_diff_distrib)
    moreover have "msPerDay \<noteq> 0" by (simp add: msPerDay_def)
    ultimately show ?thesis by simp
  qed
  then show ?thesis by (simp add: getCalendarDays_def setHours0_def Let_def)
qed

lemma getCalendarDays_before:
  assumes "e < s"
  shows "getCalendarDays s e = 0"
proof -
  from assms have "Day e \<le> Day s"
    by (simp add: Day_def msPerDay_def zdiv_mono1)
  then show ?thesis by (simp add: getCalendarDays_Day)
qed

lemma estimateBusinessDays_0: "estimateBusinessDays 0 = 0"
  by (simp add: estimateBusinessDays_def Math_round_def)

lemma estimateBusinessDays_365: "estimateBusinessDays 365 = 252"
  by (simp add: estimateBusinessDays_def Math_round_def BUSINESS_DAYS_PER_YEAR_def
      CALENDAR_DAYS_PER_YEAR_def)

lemma estimateBusinessDays_nonneg: "0 \<le> d \<Longrightarrow> 0 \<le> estimateBusinessDays d"
  by (simp add: estimateBusinessDays_def Math_round_def BUSINESS_DAYS_PER_YEAR_def
      CALENDAR_DAYS_PER_YEAR_def)

lemma getCalendarDays_nonneg: "0 \<le> getCalendarDays s e"
  by (simp add: getCalendarDays_Day)

lemma annualToDaily_base:
  assumes "- 100 < r"
  shows "1 + annualToDaily r / 100 = (1 + r / 100) powr (1 / 252)"
proof -
  from assms have "0 < 1 + r / 100" by simp
  then have "Math_pow (1 + r / 100) (1 / 252) = (1 + r / 100) powr (1 / 252)"
    by (rule Math_pow_pos) simp
  then show ?thesis
    by (simp add: annualToDaily_def BUSINESS_DAYS_PER_YEAR_def field_simps)
qed

lemma one_year_multiplier:
  assumes "- 100 < r"
  shows "Math_pow (1 + annualToDaily r / 100) 252 = 1 + r / 100"
proof -
  from assms have pos: "0 < 1 + r / 100" by simp
  then have "0 < (1 + r / 100) powr (1 / 252)" by simp
  then have "Math_pow ((1 + r / 100) powr (1 / 252)) 252 = ((1 + r / 100) powr (1 / 252)) powr 252"
    by (rule Math_pow_pos) simp
  also have "\<dots> = 1 + r / 100" using pos by (simp add: powr_powr)
  finally show ?thesis by (simp only: annualToDaily_base [OF assms])
qed

lemma Math_pow_ge_one:
  assumes "1 \<le> x" and "0 \<le> y"
  shows "1 \<le> Math_pow x y"
proof (cases "y = 0")
  case True
  then show ?thesis by (simp add: Math_pow_zero_exponent)
next
  case False
  with assms have "Math_pow x y = x powr y" by (simp add: Math_pow_pos)
  with assms show ?thesis by (simp add: ge_one_powr_ge_zero)
qed

lemma grossReturn_nonneg:
  assumes "0 \<le> principal i" and "0 \<le> cdiPercentage i" and "0 \<le> r"
  shows "0 \<le> grossReturn (calculate i t r)"
proof -
  define eff where "eff = annualToDaily r / 100 * (cdiPercentage i / 100)"
  define n where "n = estimateBusinessDays (getCalendarDays (depositDate i) t)"
  from assms(3) have "1 + annualToDaily r / 100 = (1 + r / 100) powr (1 / 252)"
    by (intro annualToDaily_base) simp
  moreover from assms(3) have "1 \<le> (1 + r / 100) powr (1 / 252)"
    by (intro ge_one_powr_ge_zero) simp_all
  ultimately have "0 \<le> annualToDaily r / 100" by simp
  with assms(2) have "0 \<le> eff" by (simp add: eff_def)
  moreover have "0 \<le> n"
    unfolding n_def by (intro estimateBusinessDays_nonneg getCalendarDays_nonneg)
  ultimately have "1 \<le> Math_pow (1 + eff) (of_int n)"
    by (intro Math_pow_ge_one) simp_all
  with assms(1) have "principal i * 1 \<le> principal i * Math_pow (1 + eff) (of_int n)"
    by (intro mult_left_mono)
  then show ?thesis by (simp add: calculate_def Let_def eff_def n_def)
qed

lemma example_one_year: "getCalendarDays (depositDate example_CDB) 1704067200000 = 365"
  by (simp add: example_CDB_def getCalendarDays_Day Day_def msPerDay_def)

lemma example_grossValue: "grossValue (calculate example_CDB 1704067200000 14.9) = 11490"
proof -
  have "Math_pow (1 + annualToDaily 14.9 / 100) 252 = 1 + 14.9 / 100"
    by (rule one_year_multiplier) simp
  with example_one_year show ?thesis
    by (simp add: calculate_def Let_def estimateBusinessDays_365 example_CDB_def)
qed

lemma taxes_bounds:
  assumes "0 \<le> g"
  shows "0 \<le> calculateIOF g d + calculateIR g (calculateIOF g d) d"
    and "calculateIOF g d + calculateIR g (calculateIOF g d) d \<le> g"
proof -
  define a where "a = calculateIOF g d"
  define b where "b = calculateIR g a d"
  from getIOFRate_range [of d] have q: "0 \<le> getIOFRate d / 100" "getIOFRate d / 100 \<le> 1"
    by simp_all
  from getIRRate_range [of d] have p: "0 \<le> getIRRate d / 100" "getIRRate d / 100 \<le> 1"
    by simp_all
  have a: "0 \<le> a" "a \<le> g"
  proof -
    from assms q(1) show "0 \<le> a" by (simp add: a_def calculateIOF_def)
    from q(2) assms have "g * (getIOFRate d / 100) \<le> g * 1" by (rule mult_left_mono)
    with assms show "a \<le> g" by (simp add: a_def calculateIOF_def)
  qed
  have b: "0 \<le> b" "b \<le> g - a"
  proof -
    from a p(1) show "0 \<le> b" by (simp add: b_def calculateIR_def Let_def)
    from a p(2) have "(g - a) * (getIRRate d / 100) \<le> (g - a) * 1"
      by (intro mult_left_mono) simp_all
    with a show "b \<le> g - a" by (simp add: b_def calculateIR_def Let_def)
  qed
  from a b show "0 \<le> calculateIOF g d + calculateIR g (calculateIOF g d) d"
    and "calculateIOF g d + calculateIR g (calculateIOF g d) d \<le> g"
    by (simp_all add: a_def b_def)
qed

lemma calculate_taxes_sum:
  "iofAmount (calculate i t r) + irAmount (calculate i t r) =
     (if isExemptFromIR i then 0
      else calculateIOF (grossReturn (calculate i t r)) (daysInvested (calculate i t r))
         + calculateIR (grossReturn (calculate i t r))
             (calculateIOF (grossReturn (calculate i t r)) (daysInvested (calculate i t r)))
             (daysInvested (calculate i t r)))"
  by (simp add: calculate_def Let_def)

lemma calculate_net:
  "netValue (calculate i t r) =
     grossValue (calculate i t r) - iofAmount (calculate i t r) - irAmount (calculate i t r)"
  "netReturn (calculate i t r) = netValue (calculate i t r) - principal i"
  "grossReturn (calculate i t r) = grossValue (calculate i t r) - principal i"
  by (simp_all add: calculate_def Let_def)

subsection \<open>The tax tables\<close>

text \<open>
  Claim C5. The rate of tax A (IOF) is 96 for every day count up to 0 and 0 for every day
  count above 30; on the days 1 to 30 it falls strictly from one day to the next, from
  96 on day 1 to 0 on day 30.
\<close>

theorem getIOFRate_table:
  "(\<forall>d. d \<le> 0 \<longrightarrow> getIOFRate d = 96) \<and>
   (\<forall>d. 30 < d \<longrightarrow> getIOFRate d = 0) \<and>
   getIOFRate 1 = 96 \<and> getIOFRate 30 = 0 \<and>
   (\<forall>d. 1 \<le> d \<and> d < 30 \<longrightarrow> getIOFRate (d + 1) < getIOFRate d)"
proof -
  have dec: "getIOFRate (d + 1) < getIOFRate d" if "1 \<le> d" "d < 30" for d
  proof -
    from that have "nat (d - 1) < nat d" "nat d < length IOF_TABLE"
      by (simp_all add: IOF_TABLE_length)
    with IOF_TABLE_decreasing have "IOF_TABLE ! nat d < IOF_TABLE ! nat (d - 1)"
      by (rule sorted_wrt_nth_less)
    with that show ?thesis by (simp add: getIOFRate_def)
  qed
  have "getIOFRate 1 = 96" "getIOFRate 30 = 0"
    by (simp_all add: getIOFRate_def IOF_TABLE_def)
  with dec show ?thesis by (simp add: getIOFRate_def)
qed

theorem getIOFRate_table_witness:
  "getIOFRate (- 3) = 96 \<and> getIOFRate 45 = 0 \<and> getIOFRate (7 + 1) < getIOFRate 7"
proof -
  from getIOFRate_table have "(- 3::int) \<le> 0 \<longrightarrow> getIOFRate (- 3) = 96"
    and "(30::int) < 45 \<longrightarrow> getIOFRate 45 = 0"
    and "(1::int) \<le> 7 \<and> (7::int) < 30 \<longrightarrow> getIOFRate (7 + 1) < getIOFRate 7"
    by blast+
  then show ?thesis by simp
qed

text \<open>
  Claim C6. The rate of tax B (IR) at the bracket boundaries: the upper bound of a bracket
  belongs to it.
\<close>

theorem getIRRate_boundaries:
  "getIRRate 180 = 22.5 \<and> getIRRate 181 = 20.0 \<and> getIRRate 360 = 20.0 \<and>
   getIRRate 361 = 17.5 \<and> getIRRate 720 = 17.5 \<and> getIRRate 721 = 15.0"
  by (simp add: getIRRate_def IR_TABLE_def)

text \<open>
  Claim C2, as stated: the rate of tax B at 365 calendar days is 15 percent. It is not:
  365 days lie in the bracket that ends at 720 days.
\<close>

theorem getIRRate_365_not_15: "getIRRate 365 \<noteq> 15.0"
  by (simp add: getIRRate_def IR_TABLE_def)

text \<open>
  Claim C2, amended. For a position that is not exempt and is valued 365 calendar days
  after its deposit, the rate of tax B is 17.5 percent, tax A is 0, and the net value is
  the gross value less 17.5 percent of the gross return (of a positive gross return: a
  return that is not positive is not taxed).
\<close>

theorem one_year_tax:
  assumes "\<not> isExemptFromIR investment"
    and "getCalendarDays (depositDate investment) currentDate = 365"
  shows "getIRRate 365 = 17.5
       \<and> irRate (calculate investment currentDate cdiAnnualRate) = 17.5
       \<and> iofAmount (calculate investment currentDate cdiAnnualRate) = 0
       \<and> netValue (calculate investment currentDate cdiAnnualRate)
           = grossValue (calculate investment currentDate cdiAnnualRate)
             - 0.175 * max 0 (grossReturn (calculate investment currentDate cdiAnnualRate))"
  using assms
  by (simp add: calculate_def Let_def getIRRate_cases getIOFRate_def calculateIOF_def
      calculateIR_def max_def)

theorem one_year_tax_witness:
  "getIRRate 365 = 17.5
   \<and> irRate (calculate example_CDB 1704067200000 14.9) = 17.5
   \<and> iofAmount (calculate example_CDB 1704067200000 14.9) = 0
   \<and> netValue (calculate example_CDB 1704067200000 14.9) = 11229.25"
proof -
  have "\<not> isExemptFromIR example_CDB" by (simp add: example_CDB_def)
  from one_year_tax [OF this example_one_year, of "14.9"] example_grossValue
  show ?thesis by (simp add: calculate_net(3) example_CDB_def)
qed

subsection \<open>Rate conversions\<close>






















subsection \<open>The yield of one position\<close>

text \<open>
  Claim C7. For a position whose exemption flag is set, both tax amounts and both tax
  rates of the yield breakdown are 0, at every valuation date and reference rate.
\<close>

theorem exempt_no_tax:
  "isExemptFromIR investment \<Longrightarrow>
     iofAmount (calculate investment currentDate cdiAnnualRate) = 0 \<and>
     irAmount (calculate investment currentDate cdiAnnualRate) = 0 \<and>
     iofRate (calculate investment currentDate cdiAnnualRate) = 0 \<and>
     irRate (calculate investment currentDate cdiAnnualRate) = 0"
  by (simp add: calculate_def Let_def)

theorem exempt_no_tax_witness:
  "isExemptFromIR example_LCI
   \<and> iofAmount (calculate example_LCI 1704067200000 14.9) = 0
   \<and> irAmount (calculate example_LCI 1704067200000 14.9) = 0
   \<and> iofRate (calculate example_LCI 1704067200000 14.9) = 0
   \<and> irRate (calculate example_LCI 1704067200000 14.9) = 0"
proof -
  have "isExemptFromIR example_LCI" by (simp add: example_LCI_def)
  from this exempt_no_tax [OF this] show ?thesis by simp
qed

text \<open>
  Claim C3. A valuation date before the deposit date gives 0 calendar days and 0 business
  days, a gross value equal to the principal, no return and no tax amount. The function
  is total and has no error result: the source has no \<^verbatim>\<open>throw\<close> on this path.
\<close>

theorem valuation_before_deposit:
  assumes "currentDate < depositDate investment"
  shows "daysInvested (calculate investment currentDate cdiAnnualRate) = 0
       \<and> businessDays (calculate investment currentDate cdiAnnualRate) = 0
       \<and> grossValue (calculate investment currentDate cdiAnnualRate) = principal investment
       \<and> grossReturn (calculate investment currentDate cdiAnnualRate) = 0
       \<and> iofAmount (calculate investment currentDate cdiAnnualRate) = 0
       \<and> irAmount (calculate investment currentDate cdiAnnualRate) = 0
       \<and> netValue (calculate investment currentDate cdiAnnualRate) = principal investment
       \<and> netReturn (calculate investment currentDate cdiAnnualRate) = 0
       \<and> effectiveRate (calculate investment currentDate cdiAnnualRate) = 0"
proof -
  from assms have "getCalendarDays (depositDate investment) currentDate = 0"
    by (rule getCalendarDays_before)
  then show ?thesis
    by (simp add: calculate_def Let_def estimateBusinessDays_0 Math_pow_zero_exponent
        calculateIOF_def calculateIR_def)
qed

theorem valuation_before_deposit_witness:
  "daysInvested (calculate example_CDB 1641000000000 14.9) = 0
   \<and> businessDays (calculate example_CDB 1641000000000 14.9) = 0
   \<and> grossValue (calculate example_CDB 1641000000000 14.9) = 10000
   \<and> grossReturn (calculate example_CDB 1641000000000 14.9) = 0
   \<and> iofAmount (calculate example_CDB 1641000000000 14.9) = 0
   \<and> irAmount (calculate example_CDB 1641000000000 14.9) = 0
   \<and> netValue (calculate example_CDB 1641000000000 14.9) = 10000
   \<and> netReturn (calculate example_CDB 1641000000000 14.9) = 0
   \<and> effectiveRate (calculate example_CDB 1641000000000 14.9) = 0"
proof -
  have "1641000000000 < depositDate example_CDB" by (simp add: example_CDB_def)
  from valuation_before_deposit [OF this, of "14.9"] show ?thesis
    by (simp add: example_CDB_def)
qed

text \<open>
  The tax amounts are 0 there; the two rates that a position which is not exempt reports
  are those of day 0.
\<close>

lemma valuation_before_deposit_rates:
  assumes "currentDate < depositDate investment" and "\<not> isExemptFromIR investment"
  shows "iofRate (calculate investment currentDate cdiAnnualRate) = 96
       \<and> irRate (calculate investment currentDate cdiAnnualRate) = 22.5"
proof -
  from assms(1) have "getCalendarDays (depositDate investment) currentDate = 0"
    by (rule getCalendarDays_before)
  with assms(2) show ?thesis
    by (simp add: calculate_def Let_def getIOFRate_def getIRRate_cases)
qed

text \<open>
  Claim C10. Whenever the gross return is not negative, the two tax amounts together lie
  between 0 and the gross return, so the net value is at least the principal and the net
  return is not negative. (For an exempt position both amounts are 0.)
\<close>

theorem taxes_within_gross_return:
  assumes "0 \<le> grossReturn (calculate investment currentDate cdiAnnualRate)"
  shows "0 \<le> iofAmount (calculate investment currentDate cdiAnnualRate)
              + irAmount (calculate investment currentDate cdiAnnualRate)
       \<and> iofAmount (calculate investment currentDate cdiAnnualRate)
              + irAmount (calculate investment currentDate cdiAnnualRate)
            \<le> grossReturn (calculate investment currentDate cdiAnnualRate)
       \<and> principal investment \<le> netValue (calculate investment currentDate cdiAnnualRate)
       \<and> 0 \<le> netReturn (calculate investment currentDate cdiAnnualRate)"
proof -
  let ?c = "calculate investment currentDate cdiAnnualRate"
  have sum: "0 \<le> iofAmount ?c + irAmount ?c \<and> iofAmount ?c + irAmount ?c \<le> grossReturn ?c"
    using assms taxes_bounds [OF assms, of "daysInvested ?c"]
    by (simp add: calculate_taxes_sum)
  then have "principal investment \<le> netValue ?c"
    by (simp add: calculate_net)
  with sum show ?thesis by (simp add: calculate_net(2))
qed

theorem taxes_within_gross_return_witness:
  "0 \<le> iofAmount (calculate example_CDB 1673395200000 14.9)
          + irAmount (calculate example_CDB 1673395200000 14.9)
   \<and> iofAmount (calculate example_CDB 1673395200000 14.9)
          + irAmount (calculate example_CDB 1673395200000 14.9)
        \<le> grossReturn (calculate example_CDB 1673395200000 14.9)
   \<and> 10000 \<le> netValue (calculate example_CDB 1673395200000 14.9)
   \<and> 0 \<le> netReturn (calculate example_CDB 1673395200000 14.9)"
proof -
  have "0 \<le> grossReturn (calculate example_CDB 1673395200000 14.9)"
    by (rule grossReturn_nonneg) (simp_all add: example_CDB_def)
  from taxes_within_gross_return [OF this] show ?thesis
    by (simp add: example_CDB_def)
qed

subsection \<open>Obligations\<close>

lemma getMonthlyExpenses_sum:
  "getMonthlyExpenses es t = (\<Sum>e\<leftarrow>es. addMonthlyExpense t 0 e)"
proof -
  have step: "addMonthlyExpense t a e = a + addMonthlyExpense t 0 e" for a e
    by (simp add: addMonthlyExpense_def Let_def split: option.split)
  have "foldl (addMonthlyExpense t) a es = a + (\<Sum>e\<leftarrow>es. addMonthlyExpense t 0 e)" for a
  proof (induction es arbitrary: a)
    case Nil
    show ?case by simp
  next
    case (Cons e es)
    then show ?case by (simp add: step [of a e] add.assoc)
  qed
  from this [of 0] show ?thesis by (simp add: getMonthlyExpenses_def)
qed

text \<open>
  Claim C4. The monthly charge of one obligation at a target date is 0 if it is paid, 0 if
  a deferred payment date is set and the target date is strictly before it, and otherwise
  the monthly amount exactly when the difference in whole months between the start date
  and the target date, taken from the years and the months alone, is at least 0 and less
  than the number of installments.
\<close>

theorem monthly_charge:
  "getMonthlyExpenses [expense] targetDate =
     (if isPaid expense then 0
      else if (\<exists>deferred. paymentDate expense = Some deferred \<and> targetDate < deferred) then 0
      else if 0 \<le> (getFullYear targetDate - getFullYear (startDate expense)) * 12
                   + (getMonth targetDate - getMonth (startDate expense))
            \<and> (getFullYear targetDate - getFullYear (startDate expense)) * 12
                   + (getMonth targetDate - getMonth (startDate expense))
                < installments expense
           then monthlyAmount expense
           else 0)"
  by (simp add: getMonthlyExpenses_def addMonthlyExpense_def getMonthsDifference_def Let_def
      split: option.split)

text \<open>
  The specification's scenario: 1200 in 12 installments from January 2024 is charged 100
  in the twelfth month, and nothing in the month after it or in the month before the
  start.
\<close>

lemma installments_example:
  "getMonthlyExpenses [example_Expense] (setMonth 1705276800000 11) = 100"
  "getMonthlyExpenses [example_Expense] (setMonth 1705276800000 12) = 0"
  "getMonthlyExpenses [example_Expense] (setMonth 1705276800000 (- 1)) = 0"
proof -
  have "getMonthsDifference 1705276800000 (setMonth 1705276800000 11) = 11"
    "getMonthsDifference 1705276800000 (setMonth 1705276800000 12) = 12"
    "getMonthsDifference 1705276800000 (setMonth 1705276800000 (- 1)) = - 1"
    by code_simp+
  then show "getMonthlyExpenses [example_Expense] (setMonth 1705276800000 11) = 100"
    "getMonthlyExpenses [example_Expense] (setMonth 1705276800000 12) = 0"
    "getMonthlyExpenses [example_Expense] (setMonth 1705276800000 (- 1)) = 0"
    by (simp_all add: getMonthlyExpenses_def addMonthlyExpense_def example_Expense_def)
qed

subsection \<open>The projection\<close>

lemma foldl_plus: "foldl (\<lambda>acc x. acc + f x) a xs = a + (\<Sum>x\<leftarrow>xs. f x)"
  for a :: real
  by (induction xs arbitrary: a) (simp_all add: add.assoc)

lemma accumulatedSavings_sum: "accumulatedSavings c mr i = spec_contributionValue c mr i"
  by (simp add: accumulatedSavings_def spec_contributionValue_def foldl_plus)

lemma spec_cumulativeExpenses_step:
  assumes "0 \<le> i"
  shows "spec_cumulativeExpenses es today i
       = spec_cumulativeExpenses es today (i - 1) + getMonthlyExpenses es (spec_targetDate today i)"
proof -
  from assms have "[0..i] = [0..i - 1] @ [i]" by (rule upto_rec2)
  then show ?thesis by (simp add: spec_cumulativeExpenses_def)
qed

lemma array_get_last:
  assumes "0 < i"
  shows "array_get (map f [0..i - 1]) (i - 1) = Some (f (i - 1))"
proof -
  from assms have "[0..i - 1] ! nat (i - 1) = 0 + int (nat (i - 1))"
    by (intro nth_upto) simp
  with assms show ?thesis by (simp add: array_get_def)
qed

lemma projectWealth_body_closed:
  assumes "0 \<le> i"
    and "tot = spec_cumulativeExpenses es today (i - 1)"
    and "rs = map (pointAt ps es r c today) [0..i - 1]"
  shows "projectWealth_body ps es r c today (annualToMonthly r / 100) i tot rs
       = (spec_cumulativeExpenses es today i, pointAt ps es r c today i)"
proof -
  have prev: "(if 0 < i then array_get rs (i - 1) else None)
            = (if 0 < i then Some (pointAt ps es r c today (i - 1)) else None)"
    by (simp add: assms(3) array_get_last)
  have pv: "foldl (\<lambda>sum inv. sum + netValue (calculate inv (spec_targetDate today i) r)) 0 ps
          = spec_positionsValue ps r today i"
    by (simp add: foldl_plus spec_positionsValue_def)
  show ?thesis
    unfolding projectWealth_body_def Let_def spec_targetDate_def [symmetric] prev pv
      accumulatedSavings_sum
    by (simp add: pointAt_def spec_netWorth_def assms(2)
        spec_cumulativeExpenses_step [OF assms(1)])
qed

lemma projectWealth_loop_closed:
  "0 \<le> i \<Longrightarrow> i \<le> m + 1 \<Longrightarrow> mr = annualToMonthly r / 100 \<Longrightarrow>
   tot = spec_cumulativeExpenses es today (i - 1) \<Longrightarrow>
   rs = map (pointAt ps es r c today) [0..i - 1] \<Longrightarrow>
   projectWealth_loop ps es m r c today mr i tot rs = map (pointAt ps es r c today) [0..m]"
proof (induction ps es m r c today mr i tot rs rule: projectWealth_loop.induct)
  case (1 ps es m r c today mr i tot rs)
  show ?case
  proof (cases "i \<le> m")
    case True
    have body: "projectWealth_body ps es r c today mr i tot rs
              = (spec_cumulativeExpenses es today i, pointAt ps es r c today i)"
      unfolding "1.prems"(3)
      using "1.prems"(1,4,5) by (rule projectWealth_body_closed)
    from "1.prems"(1) have "[0..i] = [0..i - 1] @ [i]" by (rule upto_rec2)
    with "1.prems"(5) have rs': "rs @ [pointAt ps es r c today i]
        = map (pointAt ps es r c today) [0..i + 1 - 1]"
      by simp
    have "projectWealth_loop ps es m r c today mr (i + 1) (spec_cumulativeExpenses es today i)
            (rs @ [pointAt ps es r c today i]) = map (pointAt ps es r c today) [0..m]"
    proof (rule "1.IH" [OF True refl, unfolded body fst_conv snd_conv])
      from "1.prems"(1) show "0 \<le> i + 1" by simp
      from True show "i + 1 \<le> m + 1" by simp
      from "1.prems"(3) show "mr = annualToMonthly r / 100" .
      show "spec_cumulativeExpenses es today i = spec_cumulativeExpenses es today (i + 1 - 1)" by simp
      from rs' show "rs @ [pointAt ps es r c today i]
        = map (pointAt ps es r c today) [0..i + 1 - 1]" .
    qed
    with True body show ?thesis
      by (subst projectWealth_loop.simps) (simp add: Let_def)
  next
    case False
    with "1.prems" have "i = m + 1" by simp
    with False "1.prems"(5) show ?thesis
      by (subst projectWealth_loop.simps) simp
  qed
qed

lemma projectWealth_closed:
  "projectWealth ps es m r c today = map (pointAt ps es r c today) [0..m]"
proof (cases "0 \<le> m")
  case True
  then show ?thesis
    unfolding projectWealth_def Let_def
    by (intro projectWealth_loop_closed) (simp_all add: spec_cumulativeExpenses_def)
next
  case False
  then show ?thesis
    unfolding projectWealth_def Let_def
    by (subst projectWealth_loop.simps) simp
qed

lemma example_months:
  "getMonthsDifference 1705276800000 (spec_targetDate 1705276800000 0) = 0"
  "getMonthsDifference 1705276800000 (spec_targetDate 1705276800000 1) = 1"
  by code_simp+

lemma example_charge:
  "getMonthlyExpenses [example_Expense] (spec_targetDate 1705276800000 0) = 100"
  "getMonthlyExpenses [example_Expense] (spec_targetDate 1705276800000 1) = 100"
  by (simp_all add: getMonthlyExpenses_def addMonthlyExpense_def example_Expense_def
      example_months)

lemma spec_contributionValue_0: "spec_contributionValue 0 mr i = 0"
  by (simp add: spec_contributionValue_def)

lemma upto_0_1: "[0..1] = [0, 1::int]" "[0..0] = [0::int]"
  by (simp_all add: upto.simps)

text \<open>
  Claim C9. In every point of the projection the field \<^verbatim>\<open>totalInvestments\<close> equals the
  field \<^verbatim>\<open>netWorth\<close>, and both hold the accumulated wealth: the value of the positions
  plus the compounded contributions less the cumulative expenses.
\<close>

theorem projection_closed_form:
  "map totalInvestments (projectWealth ps es m r c today)
     = map netWorth (projectWealth ps es m r c today)
   \<and> map netWorth (projectWealth ps es m r c today)
     = map (spec_netWorth ps es r c today) [0..m]"
  by (simp add: projectWealth_closed pointAt_def comp_def)

text \<open>
  The monthly return that the loop computes, for every input: at an index above 0 it is
  the value of the positions at that index, less the net worth of the previous point,
  plus one month of interest on the contribution, clamped at 0.
\<close>

lemma monthlyReturn_closed:
  "map monthlyReturn (projectWealth ps es m r c today)
     = map (\<lambda>i. max 0 (if i > 0
                         then spec_positionsValue ps r today i
                            - spec_netWorth ps es r c today (i - 1)
                            + c * (annualToMonthly r / 100)
                         else 0)) [0..m]"
  by (simp add: projectWealth_closed pointAt_def comp_def)

text \<open>
  Claim C1 says that the monthly return at an index above 0 is the difference of the net
  worth of this point and the previous one, plus one month of interest on the
  contribution, clamped at 0. The loop at a concrete input: no position, one unpaid
  obligation of 100 a month, no contribution, two points. The net worth falls from -100
  to -200, so the claim's value at index 1 is 0; the loop reports 100.
\<close>

theorem monthlyReturn_example:
  "map netWorth (projectWealth [] [example_Expense] 1 14.9 0 1705276800000) = [- 100, - 200]
   \<and> map monthlyReturn (projectWealth [] [example_Expense] 1 14.9 0 1705276800000) = [0, 100]
   \<and> monthlyReturn (projectWealth [] [example_Expense] 1 14.9 0 1705276800000 ! 1)
       \<noteq> max 0 (netWorth (projectWealth [] [example_Expense] 1 14.9 0 1705276800000 ! 1)
                 - netWorth (projectWealth [] [example_Expense] 1 14.9 0 1705276800000 ! 0)
                 + 0 * (annualToMonthly 14.9 / 100))"
proof -
  let ?ps = "projectWealth [] [example_Expense] 1 14.9 0 1705276800000"
  have w: "spec_netWorth [] [example_Expense] 14.9 0 1705276800000 0 = - 100"
    "spec_netWorth [] [example_Expense] 14.9 0 1705276800000 1 = - 200"
    by (simp_all add: spec_netWorth_def spec_positionsValue_def spec_contributionValue_0
        spec_cumulativeExpenses_def upto_0_1 example_charge)
  have nw: "map netWorth ?ps = [- 100, - 200]"
    by (simp add: projectWealth_closed pointAt_def upto_0_1 w)
  have mr: "map monthlyReturn ?ps = [0, 100]"
    by (simp add: monthlyReturn_closed upto_0_1 w spec_positionsValue_def)
  have len: "length ?ps = 2"
    by (simp add: projectWealth_closed upto_0_1)
  have "netWorth (?ps ! 0) = map netWorth ?ps ! 0" "netWorth (?ps ! 1) = map netWorth ?ps ! 1"
    "monthlyReturn (?ps ! 1) = map monthlyReturn ?ps ! 1"
    using len by simp_all
  then have "netWorth (?ps ! 0) = - 100" "netWorth (?ps ! 1) = - 200"
    "monthlyReturn (?ps ! 1) = 100"
    by (simp_all add: nw mr)
  with nw mr show ?thesis by simp
qed

end
